theory Spec2Isabelle
  imports Complex_Main
begin

section \<open>Python values, errors and the collaborators of mapsutils.py\<close>

text \<open>
  The module is dynamically typed: a position is a tuple or list (latitude, longitude),
  a string (an address) or None, and the bodies of the REST answers are decoded JSON.
  One datatype of Python values serves for all of them. Tuples and lists are one
  constructor, since every test of the source is
  \<^verbatim>\<open>type(x) is tuple or type(x) is list\<close>. Floats are modelled by the reals they
  denote (no rounding, no NaN, no infinities); how \<^verbatim>\<open>str\<close> prints a float is a
  parameter.
\<close>

datatype pyval =
    PNone
  | PBool bool
  | PInt int
  | PFloat real
  | PStr string
  | PList "pyval list"
  | PDict "(string \<times> pyval) list"

text \<open>
  Every \<^verbatim>\<open>raise\<close> of the module is a ValueError with its own message; each message
  is one constructor. The remaining constructors are the built-in exceptions the
  subscripts and comparisons of the module raise, and \<open>ErrorExterno\<close> is any
  exception raised inside a collaborator (geocoder, HTTP transport, JSON decoder).
\<close>

datatype error =
    LatitudInvalida           \<comment> \<open>ValueError('Latitud invalida')\<close>
  | LongitudInvalida          \<comment> \<open>ValueError('Longitud invalida')\<close>
  | LatLngNoEsTupla           \<comment> \<open>ValueError('La latitud y longitud deben ser una tupla o lista')\<close>
  | DireccionNoEsString       \<comment> \<open>ValueError('La direccion debe ser un String')\<close>
  | SinLatLngNiDireccion      \<comment> \<open>ValueError('Debe especificar una latitud y una longitud o una direccion')\<close>
  | YaProcesada               \<comment> \<open>ValueError('La localizacion ya ha sido procesada')\<close>
  | NoNecesarioProcesar       \<comment> \<open>ValueError('No es necesario procesar la ubicacion')\<close>
  | ErrorProcesarREST         \<comment> \<open>ValueError('Error, al procesar REST')\<close>
  | SinDatosUbicacion         \<comment> \<open>ValueError('Error, no hay datos de ubicacion para procesar')\<close>
  | InicioNoProcesado         \<comment> \<open>ValueError('La localizacion de inicio no ha sido procesada, ...')\<close>
  | FinalNoProcesado          \<comment> \<open>ValueError('La localizacion de final no ha sido procesada, ...')\<close>
  | VelocidadNoPositiva       \<comment> \<open>ValueError('La velocidad debe ser mayor a cero.')\<close>
  | IndexError
  | KeyError
  | TypeError
  | AttributeError
  | UnboundLocalError
  | ZeroDivisionError
  | ErrorExterno

subsection \<open>Numbers\<close>

datatype numero = NBool bool | NInt int | NFloat real

fun numero_de :: "pyval \<Rightarrow> numero option" where
  "numero_de (PBool b) = Some (NBool b)"
| "numero_de (PInt i) = Some (NInt i)"
| "numero_de (PFloat x) = Some (NFloat x)"
| "numero_de _ = None"

fun valor :: "numero \<Rightarrow> real" where
  "valor (NBool b) = (if b then 1 else 0)"
| "valor (NInt i) = real_of_int i"
| "valor (NFloat x) = x"

subsection \<open>\<^verbatim>\<open>str\<close> on integers\<close>

definition digito :: "nat \<Rightarrow> char" where
  "digito d = ''0123456789'' ! d"

function str_nat :: "nat \<Rightarrow> string" where
  "str_nat n = (if n < 10 then [digito n] else str_nat (n div 10) @ [digito (n mod 10)])"
  by pat_completeness auto
termination
  by (relation "measure id") auto

declare str_nat.simps [simp del]

definition str_int :: "int \<Rightarrow> string" where
  "str_int i = (if i < 0 then CHR ''-'' # str_nat (nat (- i)) else str_nat (nat i))"

text \<open>Reading a decimal text back, to show that \<open>str_nat\<close> is injective.\<close>

definition valor_digito :: "char \<Rightarrow> nat" where
  "valor_digito c = of_char c - 48"

definition nat_de_str :: "string \<Rightarrow> nat" where
  "nat_de_str s = foldl (\<lambda>a c. 10 * a + valor_digito c) 0 s"

text \<open>\<open>str_float\<close> is Python's \<^verbatim>\<open>str\<close> on a float, taken as a parameter.\<close>

fun str_numero :: "(real \<Rightarrow> string) \<Rightarrow> numero \<Rightarrow> string" where
  "str_numero str_float (NBool b) = (if b then ''True'' else ''False'')"
| "str_numero str_float (NInt i) = str_int i"
| "str_numero str_float (NFloat x) = str_float x"

subsection \<open>Subscripts\<close>

text \<open>\<^verbatim>\<open>v[k]\<close> with a string key, and \<^verbatim>\<open>v[0]\<close>.\<close>

fun getitem :: "pyval \<Rightarrow> string \<Rightarrow> error + pyval" where
  "getitem (PDict kvs) k = (case map_of kvs k of None \<Rightarrow> Inl KeyError | Some v \<Rightarrow> Inr v)"
| "getitem _ k = Inl TypeError"

fun getitem0 :: "pyval \<Rightarrow> error + pyval" where
  "getitem0 (PList []) = Inl IndexError"
| "getitem0 (PList (x # xs)) = Inr x"
| "getitem0 (PStr []) = Inl IndexError"
| "getitem0 (PStr (c # cs)) = Inr (PStr [c])"
| "getitem0 (PDict kvs) = Inl KeyError"
| "getitem0 _ = Inl TypeError"

text \<open>\<^verbatim>\<open>data['resourceSets'][0]['resources'][0]\<close>\<close>

definition primer_recurso :: "pyval \<Rightarrow> error + pyval" where
  "primer_recurso data =
     (case getitem data ''resourceSets'' of
        Inl e \<Rightarrow> Inl e
      | Inr rs \<Rightarrow>
          (case getitem0 rs of
             Inl e \<Rightarrow> Inl e
           | Inr r0 \<Rightarrow>
               (case getitem r0 ''resources'' of
                  Inl e \<Rightarrow> Inl e
                | Inr res \<Rightarrow> getitem0 res)))"

text \<open>\<^verbatim>\<open>tuple(v)\<close>: the elements of a list, the characters of a string, the keys of a dict.\<close>

fun py_tuple :: "pyval \<Rightarrow> error + pyval" where
  "py_tuple (PList xs) = Inr (PList xs)"
| "py_tuple (PStr s) = Inr (PList (map (\<lambda>c. PStr [c]) s))"
| "py_tuple (PDict kvs) = Inr (PList (map (\<lambda>kv. PStr (fst kv)) kvs))"
| "py_tuple _ = Inl TypeError"

subsection \<open>Dictionaries with insertion order\<close>

text \<open>\<^verbatim>\<open>d[k] = v\<close> keeps the place of a key that is present and appends a new one.\<close>

fun dict_set :: "(string \<times> pyval) list \<Rightarrow> string \<Rightarrow> pyval \<Rightarrow> (string \<times> pyval) list" where
  "dict_set [] k v = [(k, v)]"
| "dict_set ((k', v') # d) k v =
     (if k' = k then (k', v) # d else (k', v') # dict_set d k v)"

definition dict_update :: "(string \<times> pyval) list \<Rightarrow> (string \<times> pyval) list \<Rightarrow> (string \<times> pyval) list" where
  "dict_update d e = foldl (\<lambda>acc kv. dict_set acc (fst kv) (snd kv)) d e"

subsection \<open>Collaborators\<close>

text \<open>
  The geocoder (geopy's Nominatim), the HTTP transport behind \<^verbatim>\<open>_json_from_url\<close> and
  the library functions \<^verbatim>\<open>urllib.parse.quote\<close>, \<^verbatim>\<open>urlencode\<close>, \<^verbatim>\<open>json.loads\<close> and
  \<^verbatim>\<open>str\<close> on floats are not part of the module. They are parameters. A remote call
  answers as a function of the calls made before it, so that the same request may fail
  once and succeed later; every remote call is appended to the record of calls \<open>reg\<close>.
\<close>

datatype llamada =
    Reverse pyval             \<comment> \<open>\<^verbatim>\<open>geolocator.reverse(ubicacion)\<close>\<close>
  | Geocode string            \<comment> \<open>\<^verbatim>\<open>geolocator.geocode(ubicacion)\<close>\<close>
  | JsonFromUrl string        \<comment> \<open>\<^verbatim>\<open>_json_from_url(url)\<close>\<close>

datatype 'a respuesta = Falla | Devuelve 'a

record location =
  latitude :: real
  longitude :: real
  address :: string

record entorno =
  str_float :: "real \<Rightarrow> string"
  quote :: "string \<Rightarrow> string"
  urlencode :: "(string \<times> pyval) list \<Rightarrow> string"
  json_loads :: "string \<Rightarrow> pyval respuesta"
  reverse :: "llamada list \<Rightarrow> pyval \<Rightarrow> location option respuesta"
  geocode :: "llamada list \<Rightarrow> string \<Rightarrow> location option respuesta"
  json_from_url :: "llamada list \<Rightarrow> string \<Rightarrow> pyval respuesta"

section \<open>Query encoding\<close>

text \<open>\<^verbatim>\<open>_tuple_LatLng_to_string(latlng)\<close>\<close>

definition tuple_LatLng_to_string :: "entorno \<Rightarrow> pyval list \<Rightarrow> error + string" where
  "tuple_LatLng_to_string env latlng =
     (case latlng of
        [] \<Rightarrow> Inl IndexError
      | [_] \<Rightarrow> Inl IndexError
      | lat # lng # _ \<Rightarrow>
          (case numero_de lat of
             None \<Rightarrow> Inl TypeError
           | Some a \<Rightarrow>
               if valor a > 90 \<or> valor a < - 90 then Inl LatitudInvalida
               else (case numero_de lng of
                       None \<Rightarrow> Inl TypeError
                     | Some b \<Rightarrow>
                         if valor b > 180 \<or> valor b < - 180 then Inl LongitudInvalida
                         else Inr (str_numero (str_float env) a @ '','' @ str_numero (str_float env) b))))"

text \<open>
  \<^verbatim>\<open>_posicion_a_string_url(ubicacion)\<close>: a value that is neither a tuple, a list nor a
  string falls through both tests and the function returns None.
\<close>

fun posicion_a_string_url :: "entorno \<Rightarrow> pyval \<Rightarrow> error + pyval" where
  "posicion_a_string_url env (PList latlng) =
     (case tuple_LatLng_to_string env latlng of Inl e \<Rightarrow> Inl e | Inr s \<Rightarrow> Inr (PStr s))"
| "posicion_a_string_url env (PStr s) = Inr (PStr s)"
| "posicion_a_string_url env _ = Inr PNone"

text \<open>
  The stops of \<^verbatim>\<open>_rest_ruta\<close>: the token of the start, the tokens of the via
  positions when there are any, the token of the end. The first position that does not
  encode raises.
\<close>

fun tokens :: "entorno \<Rightarrow> pyval list \<Rightarrow> error + pyval list" where
  "tokens env [] = Inr []"
| "tokens env (u # us) =
     (case posicion_a_string_url env u of
        Inl e \<Rightarrow> Inl e
      | Inr t \<Rightarrow> (case tokens env us of Inl e \<Rightarrow> Inl e | Inr ts \<Rightarrow> Inr (t # ts)))"

definition rest_ruta_paradas :: "entorno \<Rightarrow> pyval \<Rightarrow> pyval \<Rightarrow> pyval list \<Rightarrow> error + pyval list" where
  "rest_ruta_paradas env inicio final via =
     (case posicion_a_string_url env inicio of
        Inl e \<Rightarrow> Inl e
      | Inr ti \<Rightarrow>
          (case (if length via > 0 then tokens env via else Inr []) of
             Inl e \<Rightarrow> Inl e
           | Inr tv \<Rightarrow>
               (case posicion_a_string_url env final of
                  Inl e \<Rightarrow> Inl e
                | Inr tf \<Rightarrow> Inr (([ti] @ tv) @ [tf]))))"

text \<open>
  The loop of \<^verbatim>\<open>_rest_ruta\<close> over \<^verbatim>\<open>zip(range(1, numero_paradas + 1), paradas)\<close>,
  which fills the dictionary \<^verbatim>\<open>viajes\<close>.
\<close>

definition clave_parada :: "nat \<Rightarrow> nat \<Rightarrow> string" where
  "clave_parada numero_paradas n =
     (if n = 1 \<or> n = numero_paradas then ''wayPoint.'' @ str_nat n
      else ''viaWayPoint.'' @ str_nat n)"

definition viajes_de :: "pyval list \<Rightarrow> (string \<times> pyval) list" where
  "viajes_de paradas =
     foldl (\<lambda>viajes nwp. dict_set viajes (clave_parada (length paradas) (fst nwp)) (snd nwp))
       [] (zip [1 ..< length paradas + 1] paradas)"

section \<open>The services\<close>

text \<open>
  \<open>OpenService api_open_key api_bingmaps_key version\<close> and
  \<open>BingService api_bingmaps_key version\<close>. The key of Bing Maps may be None in an
  OpenService.
\<close>

datatype map_service =
    OpenService string pyval int
  | BingService pyval int

fun api_key :: "map_service \<Rightarrow> pyval" where
  "api_key (OpenService _ k _) = k"
| "api_key (BingService k _) = k"

fun version :: "map_service \<Rightarrow> int" where
  "version (OpenService _ _ v) = v"
| "version (BingService _ v) = v"

definition url_base :: "map_service \<Rightarrow> string" where
  "url_base svc = ''http://dev.virtualearth.net/REST/v'' @ str_int (version svc) @ ''/''"

definition url_rutas :: "map_service \<Rightarrow> string" where
  "url_rutas svc = url_base svc @ ''Routes/Driving''"

definition url_localizacion :: "map_service \<Rightarrow> string" where
  "url_localizacion svc = url_base svc @ ''Locations''"

text \<open>\<^verbatim>\<open>_json_from_url(url)\<close> followed by \<^verbatim>\<open>data['resourceSets'][0]['resources'][0]\<close>.\<close>

definition consulta_rest :: "entorno \<Rightarrow> string \<Rightarrow> llamada list \<Rightarrow> (error + pyval) \<times> llamada list" where
  "consulta_rest env url reg =
     (case json_from_url env reg url of
        Falla \<Rightarrow> (Inl ErrorExterno, reg @ [JsonFromUrl url])
      | Devuelve data \<Rightarrow> (primer_recurso data, reg @ [JsonFromUrl url]))"

text \<open>
  The query to Bing Maps for a location: the whole body of
  \<^verbatim>\<open>BingService._rest_localizacion\<close>, and the branch \<^verbatim>\<open>if res is None\<close> of
  \<^verbatim>\<open>OpenService._rest_localizacion\<close>, which repeats it line by line.
\<close>

definition url_localizacion_bing :: "entorno \<Rightarrow> map_service \<Rightarrow> pyval \<Rightarrow> (string \<times> pyval) list \<Rightarrow> string" where
  "url_localizacion_bing env svc ubicacion kwargs =
     (let kwargs1 = dict_update kwargs [(''key'', api_key svc)];
          url = url_localizacion svc
      in case ubicacion of
           PList latlng \<Rightarrow>
             (let url1 = url @ ''?'';
                  kwargs2 = dict_update kwargs1 [(''query'', ubicacion)]
              in url1 @ urlencode env kwargs2)
         | PStr s \<Rightarrow>
             (let url1 = url @ ''/'' @ quote env s @ ''?''
              in url1 @ urlencode env kwargs1)
         | _ \<Rightarrow> url @ urlencode env kwargs1)"

definition rest_localizacion_bing ::
  "entorno \<Rightarrow> map_service \<Rightarrow> pyval \<Rightarrow> (string \<times> pyval) list \<Rightarrow> llamada list \<Rightarrow> (error + pyval) \<times> llamada list" where
  "rest_localizacion_bing env svc ubicacion kwargs reg =
     consulta_rest env (url_localizacion_bing env svc ubicacion kwargs) reg"

text \<open>The JSON text \<^verbatim>\<open>proc\<close> that OpenService builds from the geocoder's answer.\<close>

definition proc_de :: \<open>entorno \<Rightarrow> location \<Rightarrow> string\<close> where
  \<open>proc_de env res =
     ''{"point": {"coordinates": ['' @ str_float env (latitude res) @ '', ''
       @ str_float env (longitude res) @ '']}, "address": {"formattedAddress": "''
       @ address res @ ''"} }''\<close>

definition rest_localizacion_open_res ::
  "entorno \<Rightarrow> map_service \<Rightarrow> pyval \<Rightarrow> (string \<times> pyval) list \<Rightarrow> location option respuesta \<Rightarrow> llamada list
     \<Rightarrow> (error + pyval) \<times> llamada list" where
  "rest_localizacion_open_res env svc ubicacion kwargs r reg =
     (case r of
        Falla \<Rightarrow> (Inl ErrorExterno, reg)
      | Devuelve None \<Rightarrow> rest_localizacion_bing env svc ubicacion kwargs reg
      | Devuelve (Some res) \<Rightarrow>
          (case json_loads env (proc_de env res) of
             Falla \<Rightarrow> (Inl ErrorExterno, reg)
           | Devuelve v \<Rightarrow> (Inr v, reg)))"

text \<open>
  \<^verbatim>\<open>_rest_localizacion(ubicacion, **kwargs)\<close> of both services. In OpenService a position
  that is neither a tuple, a list nor a string leaves \<^verbatim>\<open>res\<close> unbound.
\<close>

fun rest_localizacion ::
  "entorno \<Rightarrow> map_service \<Rightarrow> pyval \<Rightarrow> (string \<times> pyval) list \<Rightarrow> llamada list \<Rightarrow> (error + pyval) \<times> llamada list" where
  "rest_localizacion env (BingService k v) ubicacion kwargs reg =
     rest_localizacion_bing env (BingService k v) ubicacion kwargs reg"
| "rest_localizacion env (OpenService a k v) ubicacion kwargs reg =
     (case ubicacion of
        PList latlng \<Rightarrow>
          rest_localizacion_open_res env (OpenService a k v) ubicacion kwargs
            (reverse env reg ubicacion) (reg @ [Reverse ubicacion])
      | PStr s \<Rightarrow>
          rest_localizacion_open_res env (OpenService a k v) ubicacion kwargs
            (geocode env reg s) (reg @ [Geocode s])
      | _ \<Rightarrow> (Inl UnboundLocalError, reg))"

text \<open>\<^verbatim>\<open>_rest_ruta(inicio, final, via, **kwargs)\<close>, the same text in both services.\<close>

definition url_ruta :: "entorno \<Rightarrow> map_service \<Rightarrow> pyval list \<Rightarrow> (string \<times> pyval) list \<Rightarrow> string" where
  "url_ruta env svc paradas kwargs =
     (let viajes = viajes_de paradas;
          kwargs1 = dict_update kwargs viajes;
          kwargs2 = dict_update kwargs1 [(''key'', api_key svc)]
      in (url_rutas svc @ ''?'') @ urlencode env kwargs2)"

definition rest_ruta ::
  "entorno \<Rightarrow> map_service \<Rightarrow> pyval \<Rightarrow> pyval \<Rightarrow> pyval list \<Rightarrow> (string \<times> pyval) list \<Rightarrow> llamada list
     \<Rightarrow> (error + pyval) \<times> llamada list" where
  "rest_ruta env svc inicio final via kwargs reg =
     (case rest_ruta_paradas env inicio final via of
        Inl e \<Rightarrow> (Inl e, reg)
      | Inr paradas \<Rightarrow> consulta_rest env (url_ruta env svc paradas kwargs) reg)"

section \<open>Localizacion\<close>

text \<open>
  The attributes of a Localizacion. \<open>data\<close> is None as long as the attribute
  \<^verbatim>\<open>self.data\<close> has never been assigned.
\<close>

record localizacion =
  data_procesada :: bool
  imagen_procesada :: bool
  latlng_recibido :: bool
  direccion_recibida :: bool
  lat :: pyval
  lng :: pyval
  latlng :: pyval
  direccion :: pyval
  data :: "pyval option"
  kwargs :: "(string \<times> pyval) list"
  map_service :: map_service

text \<open>\<^verbatim>\<open>Localizacion.__init__(map_service, latlng, direccion, **kwargs)\<close>\<close>

definition Localizacion_init ::
  "map_service \<Rightarrow> pyval \<Rightarrow> pyval \<Rightarrow> (string \<times> pyval) list \<Rightarrow> error + localizacion" where
  "Localizacion_init svc latlng_arg direccion_arg kw =
     (let self = \<lparr> data_procesada = False, imagen_procesada = False,
                    latlng_recibido = False, direccion_recibida = False,
                    lat = PNone, lng = PNone, latlng = PNone, direccion = PNone,
                    data = None, kwargs = kw, map_service = svc \<rparr>
      in if latlng_arg \<noteq> PNone \<and> direccion_arg \<noteq> PNone then
           Inr (self\<lparr>latlng_recibido := True, direccion_recibida := True\<rparr>)
         else if latlng_arg \<noteq> PNone then
           (case latlng_arg of
              PList xs \<Rightarrow>
                (case xs of
                   a # b # _ \<Rightarrow>
                     Inr (self\<lparr>lat := a, lng := b, latlng := latlng_arg, latlng_recibido := True\<rparr>)
                 | _ \<Rightarrow> Inl IndexError)
            | _ \<Rightarrow> Inl LatLngNoEsTupla)
         else if direccion_arg \<noteq> PNone then
           (case direccion_arg of
              PStr s \<Rightarrow> Inr (self\<lparr>direccion := direccion_arg, direccion_recibida := True\<rparr>)
            | _ \<Rightarrow> Inl DireccionNoEsString)
         else Inl SinLatLngNiDireccion)"

text \<open>
  The two \<^verbatim>\<open>try\<close> blocks of \<^verbatim>\<open>Localizacion.procesar\<close> are the same text, one with
  \<^verbatim>\<open>self._direccion\<close> and one with \<^verbatim>\<open>self._latlng\<close>: the bare \<^verbatim>\<open>except\<close> turns
  every exception into 'Error, al procesar REST' and the two assignments are skipped.
\<close>

definition procesar_con ::
  "entorno \<Rightarrow> localizacion \<Rightarrow> pyval \<Rightarrow> llamada list \<Rightarrow> (error + pyval) \<times> localizacion \<times> llamada list" where
  "procesar_con env self ubicacion reg =
     (case rest_localizacion env (map_service self) ubicacion (kwargs self) reg of
        (Inl e, reg') \<Rightarrow> (Inl ErrorProcesarREST, self, reg')
      | (Inr d, reg') \<Rightarrow> (Inr d, self\<lparr>data := Some d, data_procesada := True\<rparr>, reg'))"

definition Localizacion_procesar ::
  "entorno \<Rightarrow> localizacion \<Rightarrow> llamada list \<Rightarrow> (error + pyval) \<times> localizacion \<times> llamada list" where
  "Localizacion_procesar env self reg =
     (if data_procesada self then (Inl YaProcesada, self, reg)
      else if latlng_recibido self \<and> direccion_recibida self then (Inl NoNecesarioProcesar, self, reg)
      else if direccion self \<noteq> PNone then procesar_con env self (direccion self) reg
      else if latlng self \<noteq> PNone then procesar_con env self (latlng self) reg
      else (Inl SinDatosUbicacion, self, reg))"

text \<open>\<^verbatim>\<open>if not self._data_procesada: self.procesar()\<close>, as the accessors do first.\<close>

definition procesar_si_falta ::
  "entorno \<Rightarrow> localizacion \<Rightarrow> llamada list \<Rightarrow> (error + unit) \<times> localizacion \<times> llamada list" where
  "procesar_si_falta env self reg =
     (if \<not> data_procesada self then
        (case Localizacion_procesar env self reg of
           (Inl e, self', reg') \<Rightarrow> (Inl e, self', reg')
         | (Inr d, self', reg') \<Rightarrow> (Inr (), self', reg'))
      else (Inr (), self, reg))"

text \<open>\<^verbatim>\<open>tuple(self.data['point']['coordinates'])\<close>\<close>

definition coordenadas_de :: "localizacion \<Rightarrow> error + pyval" where
  "coordenadas_de self =
     (case data self of
        None \<Rightarrow> Inl AttributeError
      | Some d \<Rightarrow>
          (case getitem d ''point'' of
             Inl e \<Rightarrow> Inl e
           | Inr p \<Rightarrow>
               (case getitem p ''coordinates'' of
                  Inl e \<Rightarrow> Inl e
                | Inr c \<Rightarrow> py_tuple c)))"

text \<open>\<^verbatim>\<open>self.data['address']['formattedAddress']\<close>\<close>

definition direccion_formateada_de :: "localizacion \<Rightarrow> error + pyval" where
  "direccion_formateada_de self =
     (case data self of
        None \<Rightarrow> Inl AttributeError
      | Some d \<Rightarrow>
          (case getitem d ''address'' of
             Inl e \<Rightarrow> Inl e
           | Inr a \<Rightarrow> getitem a ''formattedAddress''))"

definition obtener_latlng ::
  "entorno \<Rightarrow> localizacion \<Rightarrow> llamada list \<Rightarrow> (error + pyval) \<times> localizacion \<times> llamada list" where
  "obtener_latlng env self reg =
     (if latlng_recibido self then (Inr (latlng self), self, reg)
      else (case procesar_si_falta env self reg of
              (Inl e, self', reg') \<Rightarrow> (Inl e, self', reg')
            | (Inr u, self', reg') \<Rightarrow> (coordenadas_de self', self', reg')))"

definition obtener_direccion ::
  "entorno \<Rightarrow> localizacion \<Rightarrow> llamada list \<Rightarrow> (error + pyval) \<times> localizacion \<times> llamada list" where
  "obtener_direccion env self reg =
     (if direccion_recibida self then (Inr (direccion self), self, reg)
      else (case procesar_si_falta env self reg of
              (Inl e, self', reg') \<Rightarrow> (Inl e, self', reg')
            | (Inr u, self', reg') \<Rightarrow> (direccion_formateada_de self', self', reg')))"

section \<open>Ruta\<close>

text \<open>
  A Ruta holds references to its Localizacion objects, and the same object may be the
  start, the end and a stop of one route, or belong to several routes. The objects live in
  a store; the state threaded through the methods of a Ruta is the store and the record
  of remote calls.
\<close>

type_synonym ref = nat

record estado =
  objetos :: "ref \<Rightarrow> localizacion"
  registro :: "llamada list"

record ruta =
  ruta_data_procesada :: bool
  ruta_imagen_procesada :: bool
  paradas :: "ref list"
  inicio :: ref
  final :: ref
  ruta_kwargs :: "(string \<times> pyval) list"
  ruta_map_service :: map_service
  ruta_data :: "pyval option"

text \<open>
  \<^verbatim>\<open>Ruta.__init__(map_service, inicio, final, paradas, **kwargs)\<close>. The three type tests
  of the constructor hold by the types of the arguments.
\<close>

definition Ruta_init :: "map_service \<Rightarrow> ref \<Rightarrow> ref \<Rightarrow> ref list \<Rightarrow> (string \<times> pyval) list \<Rightarrow> ruta" where
  "Ruta_init svc inicio_arg final_arg paradas_arg kw =
     \<lparr> ruta_data_procesada = False, ruta_imagen_procesada = False,
       paradas = paradas_arg, inicio = inicio_arg, final = final_arg,
       ruta_kwargs = kw, ruta_map_service = svc, ruta_data = None \<rparr>"

text \<open>A method of Localizacion called on the object behind a reference.\<close>

definition en_objeto ::
  "(localizacion \<Rightarrow> llamada list \<Rightarrow> 'a \<times> localizacion \<times> llamada list) \<Rightarrow> ref \<Rightarrow> estado \<Rightarrow> 'a \<times> estado" where
  "en_objeto metodo r st =
     (case metodo (objetos st r) (registro st) of
        (res, self', reg') \<Rightarrow> (res, \<lparr> objetos = (objetos st)(r := self'), registro = reg' \<rparr>))"

text \<open>\<^verbatim>\<open>[loc.obtener_latlng() for loc in self._paradas]\<close>, from left to right.\<close>

fun obtener_latlng_paradas :: "entorno \<Rightarrow> ref list \<Rightarrow> estado \<Rightarrow> (error + pyval list) \<times> estado" where
  "obtener_latlng_paradas env [] st = (Inr [], st)"
| "obtener_latlng_paradas env (r # rs) st =
     (case en_objeto (obtener_latlng env) r st of
        (Inl e, st1) \<Rightarrow> (Inl e, st1)
      | (Inr v, st1) \<Rightarrow>
          (case obtener_latlng_paradas env rs st1 of
             (Inl e, st2) \<Rightarrow> (Inl e, st2)
           | (Inr vs, st2) \<Rightarrow> (Inr (v # vs), st2)))"

text \<open>
  The choice of \<^verbatim>\<open>proc_inicio\<close> and of \<^verbatim>\<open>proc_final\<close> in \<^verbatim>\<open>Ruta.procesar\<close>; \<open>e\<close> is
  the error of the last branch.
\<close>

definition proc_extremo :: "entorno \<Rightarrow> error \<Rightarrow> ref \<Rightarrow> estado \<Rightarrow> (error + pyval) \<times> estado" where
  "proc_extremo env e r st =
     (if latlng_recibido (objetos st r) then en_objeto (obtener_latlng env) r st
      else if direccion_recibida (objetos st r) then en_objeto (obtener_direccion env) r st
      else (Inl e, st))"

text \<open>The \<^verbatim>\<open>try\<close> block of \<^verbatim>\<open>Ruta.procesar\<close>.\<close>

definition procesar_ruta_con ::
  "entorno \<Rightarrow> ruta \<Rightarrow> pyval \<Rightarrow> pyval \<Rightarrow> estado \<Rightarrow> (error + pyval) \<times> ruta \<times> estado" where
  "procesar_ruta_con env self proc_inicio proc_final st =
     (case obtener_latlng_paradas env (paradas self) st of
        (Inl e, st1) \<Rightarrow> (Inl ErrorProcesarREST, self, st1)
      | (Inr via, st1) \<Rightarrow>
          (case rest_ruta env (ruta_map_service self) proc_inicio proc_final via
                  (ruta_kwargs self) (registro st1) of
             (Inl e, reg') \<Rightarrow> (Inl ErrorProcesarREST, self, st1\<lparr>registro := reg'\<rparr>)
           | (Inr d, reg') \<Rightarrow>
               (Inr d, self\<lparr>ruta_data := Some d, ruta_data_procesada := True\<rparr>,
                st1\<lparr>registro := reg'\<rparr>)))"

definition Ruta_procesar :: "entorno \<Rightarrow> ruta \<Rightarrow> estado \<Rightarrow> (error + pyval) \<times> ruta \<times> estado" where
  "Ruta_procesar env self st =
     (if ruta_data_procesada self then (Inl YaProcesada, self, st)
      else (case proc_extremo env InicioNoProcesado (inicio self) st of
              (Inl e, st1) \<Rightarrow> (Inl e, self, st1)
            | (Inr proc_inicio, st1) \<Rightarrow>
                (case proc_extremo env FinalNoProcesado (final self) st1 of
                   (Inl e, st2) \<Rightarrow> (Inl e, self, st2)
                 | (Inr proc_final, st2) \<Rightarrow>
                     procesar_ruta_con env self proc_inicio proc_final st2)))"

subsection \<open>Distances and times\<close>



text \<open>
  \<^verbatim>\<open>if not self._data_procesada: self.procesar()\<close> followed by \<^verbatim>\<open>self.data[campo]\<close>, the
  body of \<^verbatim>\<open>distancia_ruta_bing_kilometros\<close> and of \<^verbatim>\<open>tiempo_de_viaje_segundos\<close>.
\<close>

definition campo_de_ruta :: "entorno \<Rightarrow> string \<Rightarrow> ruta \<Rightarrow> estado \<Rightarrow> (error + pyval) \<times> ruta \<times> estado" where
  "campo_de_ruta env campo self st =
     (case (if \<not> ruta_data_procesada self then Ruta_procesar env self st
            else (Inr PNone, self, st)) of
        (Inl e, self', st') \<Rightarrow> (Inl e, self', st')
      | (Inr u, self', st') \<Rightarrow>
          ((case ruta_data self' of None \<Rightarrow> Inl AttributeError | Some d \<Rightarrow> getitem d campo),
           self', st'))"






section \<open>Stand-ins for the collaborators\<close>

text \<open>
  Concrete collaborators for the examples. \<open>str_float_ejemplo\<close> prints the floats of the
  examples as Python does and every other float as \<open>0.0\<close>; \<open>quote_ejemplo\<close> escapes
  the comma and the space and nothing else, which is what \<^verbatim>\<open>urllib.parse.quote\<close> does on
  the strings of the examples; \<open>urlencode_ejemplo\<close> joins \<open>key=value\<close> with \<open>&\<close>, the
  values escaped as \<^verbatim>\<open>quote_plus\<close> escapes the strings of the examples.
  The remote collaborators answer from a script: the n-th call to the geocoder gets the
  n-th answer of \<open>geo\<close>, the n-th HTTP request the n-th answer of \<open>http\<close>, and a call
  beyond the script fails. \<open>json_loads\<close> decodes the texts of a table.
\<close>

definition str_float_ejemplo :: "real \<Rightarrow> string" where
  "str_float_ejemplo x =
     (if x = 4.6 then ''4.6'' else if x = - 74.1 then ''-74.1''
      else if x = 4.7 then ''4.7'' else if x = - 74 then ''-74.0''
      else if x = 10 then ''10.0'' else ''0.0'')"

definition quote_ejemplo :: "string \<Rightarrow> string" where
  "quote_ejemplo s =
     concat (map (\<lambda>c. if c = CHR '','' then ''%2C'' else if c = CHR '' '' then ''%20'' else [c]) s)"

definition quote_plus_ejemplo :: "string \<Rightarrow> string" where
  "quote_plus_ejemplo s =
     concat (map (\<lambda>c. if c = CHR '','' then ''%2C'' else if c = CHR '' '' then ''+'' else [c]) s)"

fun str_ejemplo :: "pyval \<Rightarrow> string" where
  "str_ejemplo (PStr s) = s"
| "str_ejemplo (PInt i) = str_int i"
| "str_ejemplo (PFloat x) = str_float_ejemplo x"
| "str_ejemplo (PBool b) = (if b then ''True'' else ''False'')"
| "str_ejemplo (PList [a, b]) = ''('' @ str_ejemplo a @ '', '' @ str_ejemplo b @ '')''"
| "str_ejemplo _ = ''None''"

fun urlencode_ejemplo :: "(string \<times> pyval) list \<Rightarrow> string" where
  "urlencode_ejemplo [] = []"
| "urlencode_ejemplo [kv] = fst kv @ ''='' @ quote_plus_ejemplo (str_ejemplo (snd kv))"
| "urlencode_ejemplo (kv # kvs) =
     fst kv @ ''='' @ quote_plus_ejemplo (str_ejemplo (snd kv)) @ ''&'' @ urlencode_ejemplo kvs"

fun respuesta_n :: "'a respuesta list \<Rightarrow> nat \<Rightarrow> 'a respuesta" where
  "respuesta_n [] n = Falla"
| "respuesta_n (r # rs) 0 = r"
| "respuesta_n (r # rs) (Suc n) = respuesta_n rs n"

fun es_http :: "llamada \<Rightarrow> bool" where
  "es_http (JsonFromUrl url) = True"
| "es_http _ = False"

definition entorno_ejemplo ::
  "(string \<times> pyval) list \<Rightarrow> location option respuesta list \<Rightarrow> pyval respuesta list \<Rightarrow> entorno" where
  "entorno_ejemplo tabla geo http =
     \<lparr> str_float = str_float_ejemplo,
       quote = quote_ejemplo,
       urlencode = urlencode_ejemplo,
       json_loads = (\<lambda>s. case map_of tabla s of None \<Rightarrow> Falla | Some v \<Rightarrow> Devuelve v),
       reverse = (\<lambda>reg u. respuesta_n geo (length (filter (\<lambda>c. \<not> es_http c) reg))),
       geocode = (\<lambda>reg s. respuesta_n geo (length (filter (\<lambda>c. \<not> es_http c) reg))),
       json_from_url = (\<lambda>reg url. respuesta_n http (length (filter es_http reg))) \<rparr>"

text \<open>The objects and the answers of the examples.\<close>

definition servicio_bing :: map_service where
  "servicio_bing = BingService (PStr ''K'') 1"

definition servicio_open :: map_service where
  "servicio_open = OpenService ''agente'' (PStr ''K'') 1"

definition recurso_localizacion :: pyval where
  "recurso_localizacion =
     PDict [(''point'', PDict [(''coordinates'', PList [PFloat 10, PFloat 10])]),
            (''address'', PDict [(''formattedAddress'', PStr ''Bogota'')])]"

definition recurso_ruta :: pyval where
  "recurso_ruta =
     PDict [(''travelDistance'', PFloat 15.2), (''travelDurationTraffic'', PInt 1200)]"

definition respuesta_rest :: "pyval \<Rightarrow> pyval" where
  "respuesta_rest recurso =
     PDict [(''resourceSets'', PList [PDict [(''resources'', PList [recurso])]])]"

definition loc_direccion :: "map_service \<Rightarrow> localizacion" where
  "loc_direccion svc = projr (Localizacion_init svc PNone (PStr ''Bogota'') [])"

definition loc_inicio :: "map_service \<Rightarrow> localizacion" where
  "loc_inicio svc = projr (Localizacion_init svc (PList [PFloat 4.6, PFloat (- 74.1)]) PNone [])"

definition loc_final :: "map_service \<Rightarrow> localizacion" where
  "loc_final svc = projr (Localizacion_init svc (PList [PFloat 4.7, PFloat (- 74)]) PNone [])"

text \<open>
  The store of the examples: object 0 has the coordinate (4.6, -74.1), object 1 the
  coordinate (4.7, -74.0), and every other object the address Bogota only.
\<close>

definition estado_ejemplo :: estado where
  "estado_ejemplo =
     \<lparr> objetos = (\<lambda>r. if r = 0 then loc_inicio servicio_bing
                      else if r = 1 then loc_final servicio_bing
                      else loc_direccion servicio_bing),
       registro = [] \<rparr>"

text \<open>An answer of the geocoder and the payload that its JSON text decodes to.\<close>

definition location_ejemplo :: location where
  "location_ejemplo = \<lparr> latitude = 4.6, longitude = - 74.1, address = ''Bogota'' \<rparr>"

definition recurso_primario :: pyval where
  "recurso_primario =
     PDict [(''point'', PDict [(''coordinates'', PList [PFloat 4.6, PFloat (- 74.1)])]),
            (''address'', PDict [(''formattedAddress'', PStr ''Bogota'')])]"

definition entorno_primario :: entorno where
  "entorno_primario =
     entorno_ejemplo [(proc_de (entorno_ejemplo [] [] []) location_ejemplo, recurso_primario)]
       [Devuelve (Some location_ejemplo)] []"

text \<open>A Localizacion whose two flags are off, which no call of the constructor returns.\<close>

definition loc_sin_datos :: localizacion where
  "loc_sin_datos = (loc_inicio servicio_bing)\<lparr>latlng_recibido := False\<rparr>"

definition estado_sin_datos :: estado where
  "estado_sin_datos = estado_ejemplo\<lparr>objetos := (objetos estado_ejemplo)(0 := loc_sin_datos)\<rparr>"

section \<open>Properties\<close>

subsection \<open>Auxiliary facts\<close>

subsubsection \<open>Decimal texts\<close>

lemma str_nat_digito: "n < 10 \<Longrightarrow> str_nat n = [digito n]"
  by (subst str_nat.simps) simp

lemma valor_digito_digito: "d < 10 \<Longrightarrow> valor_digito (digito d) = d"
proof -
  assume "d < 10"
  then have "d \<in> {0, 1, 2, 3, 4, 5, 6, 7, 8, 9}" by auto
  then show ?thesis
    by (auto simp: digito_def valor_digito_def)
qed

lemma nat_de_str_snoc: "nat_de_str (s @ [c]) = 10 * nat_de_str s + valor_digito c"
  by (simp add: nat_de_str_def)

lemma nat_de_str_str_nat: "nat_de_str (str_nat n) = n"
proof (induction n rule: str_nat.induct)
  case (1 n)
  show ?case
  proof (cases "n < 10")
    case True
    then show ?thesis
      by (simp add: str_nat_digito nat_de_str_def valor_digito_digito)
  next
    case False
    then have "str_nat n = str_nat (n div 10) @ [digito (n mod 10)]"
      by (subst str_nat.simps) simp
    with False "1.IH" show ?thesis
      by (simp add: nat_de_str_snoc valor_digito_digito)
  qed
qed

lemma str_nat_inj: "str_nat a = str_nat b \<Longrightarrow> a = b"
  by (metis nat_de_str_str_nat)

lemma clave_parada_inj: "clave_parada N a = clave_parada N b \<Longrightarrow> a = b"
  by (auto simp: clave_parada_def split: if_splits dest: str_nat_inj)

subsubsection \<open>Dictionaries and the waypoint keys\<close>

lemma dict_set_nueva: "k \<notin> fst ` set d \<Longrightarrow> dict_set d k v = d @ [(k, v)]"
  by (induction d) auto

lemma foldl_dict_set_distintas:
  "distinct (map fst e) \<Longrightarrow> fst ` set e \<inter> fst ` set d = {} \<Longrightarrow>
   foldl (\<lambda>acc kv. dict_set acc (fst kv) (snd kv)) d e = d @ e"
proof (induction e arbitrary: d)
  case Nil
  then show ?case by simp
next
  case (Cons kv e)
  from Cons.prems have nueva: "fst kv \<notin> fst ` set d" by auto
  from Cons.prems have "distinct (map fst e)" and "fst ` set e \<inter> fst ` set (d @ [kv]) = {}"
    by auto
  then have "foldl (\<lambda>acc kv. dict_set acc (fst kv) (snd kv)) (d @ [kv]) e = (d @ [kv]) @ e"
    by (rule Cons.IH)
  with nueva show ?case
    by (simp add: dict_set_nueva)
qed

lemma foldl_dict_set_zip:
  assumes "length ns = length ps" and "distinct (map g ns)"
  shows "foldl (\<lambda>viajes nwp. dict_set viajes (g (fst nwp)) (snd nwp)) [] (zip ns ps)
           = zip (map g ns) ps"
proof -
  let ?e = "map (\<lambda>nwp. (g (fst nwp), snd nwp)) (zip ns ps)"
  have e: "?e = zip (map g ns) ps"
    by (simp add: zip_map1 case_prod_beta)
  have "map fst ?e = map g ns"
    using assms(1) by (simp add: e)
  with assms(2) have d: "distinct (map fst ?e)"
    by simp
  have "foldl (\<lambda>viajes nwp. dict_set viajes (g (fst nwp)) (snd nwp)) [] (zip ns ps)
          = foldl (\<lambda>acc kv. dict_set acc (fst kv) (snd kv)) [] ?e"
    by (simp add: foldl_map)
  also have "\<dots> = [] @ ?e"
    using d by (intro foldl_dict_set_distintas) auto
  finally show ?thesis
    using e by simp
qed

lemma viajes_de_zip:
  "viajes_de ps = zip (map (clave_parada (length ps)) [1 ..< length ps + 1]) ps"
proof -
  have "inj_on (clave_parada (length ps)) (set [1 ..< length ps + 1])"
    by (auto simp: inj_on_def dest: clave_parada_inj)
  then have "distinct (map (clave_parada (length ps)) [1 ..< length ps + 1])"
    by (simp add: distinct_map del: upt_Suc)
  moreover have "length [1 ..< length ps + 1] = length ps"
    by (simp del: upt_Suc)
  ultimately show ?thesis
    unfolding viajes_de_def by (rule foldl_dict_set_zip [rotated])
qed

lemma tokens_length: "tokens env us = Inr ts \<Longrightarrow> length ts = length us"
  by (induction us arbitrary: ts) (auto split: sum.splits)

lemma tokens_nth:
  "tokens env us = Inr ts \<Longrightarrow> i < length us \<Longrightarrow> posicion_a_string_url env (us ! i) = Inr (ts ! i)"
proof (induction us arbitrary: ts i)
  case Nil
  then show ?case by simp
next
  case (Cons u us)
  then show ?case
    by (cases i) (auto split: sum.splits)
qed


lemma viajes_de_dom:
  "dom (map_of (viajes_de ps)) = clave_parada (length ps) ` {1 .. length ps}"
proof -
  have "length (map (clave_parada (length ps)) [1 ..< length ps + 1]) = length ps"
    by (simp del: upt_Suc)
  then have "dom (map_of (viajes_de ps)) = set (map (clave_parada (length ps)) [1 ..< length ps + 1])"
    unfolding viajes_de_zip by (rule dom_map_of_zip)
  also have "\<dots> = clave_parada (length ps) ` {1 .. length ps}"
    by (simp del: upt_Suc add: atLeastLessThanSuc_atLeastAtMost)
  finally show ?thesis .
qed

lemma viajes_de_lookup:
  assumes "1 \<le> k" and "k \<le> length ps"
  shows "map_of (viajes_de ps) (clave_parada (length ps) k) = Some (ps ! (k - 1))"
proof -
  let ?ks = "map (clave_parada (length ps)) [1 ..< length ps + 1]"
  have len: "length ?ks = length ps"
    by (simp del: upt_Suc)
  have "inj_on (clave_parada (length ps)) (set [1 ..< length ps + 1])"
    by (auto simp: inj_on_def dest: clave_parada_inj)
  then have dist: "distinct ?ks"
    by (simp add: distinct_map del: upt_Suc)
  from assms have i: "k - 1 < length ps" by simp
  have "map_of (zip ?ks ps) (?ks ! (k - 1)) = Some (ps ! (k - 1))"
    using len dist i by (rule map_of_zip_nth)
  moreover from assms have "?ks ! (k - 1) = clave_parada (length ps) k"
    by (simp del: upt_Suc)
  ultimately show ?thesis
    by (simp only: viajes_de_zip)
qed

lemma str_nat_Suc_0: "str_nat (Suc 0) = ''1''"
  by (subst str_nat.simps) (simp add: digito_def)

lemma str_nat_1: "str_nat 1 = ''1''"
  by (simp add: str_nat_Suc_0)

lemma str_nat_Suc_Suc_0: "str_nat (Suc (Suc 0)) = ''2''"
  by (subst str_nat.simps) (simp add: digito_def)

lemma claves_de_paradas:
  "clave_parada (m + 2) ` {1 .. m + 2}
     = {''wayPoint.1''} \<union> {''viaWayPoint.'' @ str_nat k | k. 2 \<le> k \<and> k \<le> m + 1}
         \<union> {''wayPoint.'' @ str_nat (m + 2)}"
proof -
  have "{1 .. m + 2} = {1} \<union> {k. 2 \<le> k \<and> k \<le> m + 1} \<union> {m + 2}"
    by auto
  then have "clave_parada (m + 2) ` {1 .. m + 2}
      = {clave_parada (m + 2) 1} \<union> clave_parada (m + 2) ` {k. 2 \<le> k \<and> k \<le> m + 1}
          \<union> {clave_parada (m + 2) (m + 2)}"
    by (simp only: image_Un image_insert image_empty)
  moreover have "clave_parada (m + 2) 1 = ''wayPoint.1''"
    by (simp add: clave_parada_def str_nat_Suc_0)
  moreover have "clave_parada (m + 2) (m + 2) = ''wayPoint.'' @ str_nat (m + 2)"
    by (simp add: clave_parada_def)
  moreover have "clave_parada (m + 2) ` {k. 2 \<le> k \<and> k \<le> m + 1}
      = {''viaWayPoint.'' @ str_nat k | k. 2 \<le> k \<and> k \<le> m + 1}"
    by (auto simp: clave_parada_def image_def)
  ultimately show ?thesis by simp
qed

subsubsection \<open>Outcomes of \<open>procesar\<close>\<close>

lemma Localizacion_procesar_exito:
  "Localizacion_procesar env self reg = (Inr d, self', reg') \<Longrightarrow> data_procesada self' \<and> data self' = Some d"
  by (auto simp: Localizacion_procesar_def procesar_con_def split: if_splits prod.splits sum.splits)






lemma en_objeto_latlng_recibido:
  "latlng_recibido (objetos st r) \<Longrightarrow>
   en_objeto (obtener_latlng env) r st = (Inr (latlng (objetos st r)), st)"
  by (simp add: en_objeto_def obtener_latlng_def)

lemma en_objeto_direccion_recibida:
  "direccion_recibida (objetos st r) \<Longrightarrow>
   en_objeto (obtener_direccion env) r st = (Inr (direccion (objetos st r)), st)"
  by (simp add: en_objeto_def obtener_direccion_def)

lemma proc_extremo_casos:
  "proc_extremo env e r st =
     (if latlng_recibido (objetos st r) then (Inr (latlng (objetos st r)), st)
      else if direccion_recibida (objetos st r) then (Inr (direccion (objetos st r)), st)
      else (Inl e, st))"
  by (simp add: proc_extremo_def en_objeto_latlng_recibido en_objeto_direccion_recibida)


subsubsection \<open>The stops of a route\<close>

lemma Localizacion_procesar_conserva:
  "Localizacion_procesar env self reg = (res, self', reg') \<Longrightarrow>
   latlng_recibido self' = latlng_recibido self \<and> latlng self' = latlng self
   \<and> direccion_recibida self' = direccion_recibida self \<and> direccion self' = direccion self"
  by (auto simp: Localizacion_procesar_def procesar_con_def split: if_splits prod.splits sum.splits)

lemma obtener_latlng_disponible:
  "latlng_recibido self \<or> data_procesada self \<Longrightarrow> snd (obtener_latlng env self reg) = (self, reg)"
  by (auto simp: obtener_latlng_def procesar_si_falta_def)

lemma obtener_latlng_exito:
  assumes "obtener_latlng env self reg = (Inr v, self', reg')"
  shows "(latlng_recibido self' \<or> data_procesada self')
       \<and> (if latlng_recibido self' then v = latlng self' else coordenadas_de self' = Inr v)"
proof (cases "latlng_recibido self")
  case True
  with assms show ?thesis by (auto simp: obtener_latlng_def)
next
  case no_latlng: False
  show ?thesis
  proof (cases "data_procesada self")
    case True
    with no_latlng assms show ?thesis
      by (auto simp: obtener_latlng_def procesar_si_falta_def)
  next
    case False
    with no_latlng assms obtain d where p: "Localizacion_procesar env self reg = (Inr d, self', reg')"
      and c: "coordenadas_de self' = Inr v"
      by (auto simp: obtener_latlng_def procesar_si_falta_def split: prod.splits sum.splits)
    from p have "data_procesada self'"
      using Localizacion_procesar_exito by blast
    moreover from p no_latlng have "\<not> latlng_recibido self'"
      using Localizacion_procesar_conserva by blast
    ultimately show ?thesis
      using c by simp
  qed
qed

lemma en_objeto_otros:
  "en_objeto metodo r st = (res, st') \<Longrightarrow> r' \<noteq> r \<Longrightarrow> objetos st' r' = objetos st r'"
  by (auto simp: en_objeto_def split: prod.splits)

lemma en_objeto_obtener_latlng_disponible:
  assumes "en_objeto (obtener_latlng env) r st = (res, st')"
    and "latlng_recibido (objetos st r) \<or> data_procesada (objetos st r)"
  shows "objetos st' r = objetos st r"
proof -
  from assms(2) have "snd (obtener_latlng env (objetos st r) (registro st)) = (objetos st r, registro st)"
    by (rule obtener_latlng_disponible)
  with assms(1) show ?thesis
    by (auto simp: en_objeto_def split: prod.splits)
qed

lemma en_objeto_obtener_latlng_exito:
  assumes "en_objeto (obtener_latlng env) r st = (Inr v, st')"
  shows "(latlng_recibido (objetos st' r) \<or> data_procesada (objetos st' r))
       \<and> (if latlng_recibido (objetos st' r) then v = latlng (objetos st' r)
          else coordenadas_de (objetos st' r) = Inr v)"
proof -
  from assms obtain self' reg' where o: "obtener_latlng env (objetos st r) (registro st) = (Inr v, self', reg')"
    and s: "st' = \<lparr> objetos = (objetos st)(r := self'), registro = reg' \<rparr>"
    by (auto simp: en_objeto_def split: prod.splits)
  from s have "objetos st' r = self'" by simp
  with obtener_latlng_exito [OF o] show ?thesis by simp
qed

lemma obtener_latlng_paradas_conserva:
  assumes "obtener_latlng_paradas env rs st = (res, st')"
    and "r \<notin> set rs \<or> latlng_recibido (objetos st r) \<or> data_procesada (objetos st r)"
  shows "objetos st' r = objetos st r"
  using assms
proof (induction rs arbitrary: st res st')
  case Nil
  then show ?case by simp
next
  case (Cons r0 rs)
  obtain res1 st1 where h: "en_objeto (obtener_latlng env) r0 st = (res1, st1)"
    by (cases "en_objeto (obtener_latlng env) r0 st")
  have uno: "objetos st1 r = objetos st r"
  proof (cases "r = r0")
    case True
    with Cons.prems(2) have "latlng_recibido (objetos st r0) \<or> data_procesada (objetos st r0)"
      by simp
    with h True show ?thesis
      using en_objeto_obtener_latlng_disponible by blast
  next
    case False
    with h show ?thesis by (rule en_objeto_otros)
  qed
  show ?case
  proof (cases res1)
    case (Inl e)
    with h Cons.prems(1) have "st' = st1" by simp
    with uno show ?thesis by simp
  next
    case (Inr v)
    obtain res2 st2 where t: "obtener_latlng_paradas env rs st1 = (res2, st2)"
      by (cases "obtener_latlng_paradas env rs st1")
    with h Inr Cons.prems(1) have "st' = st2"
      by (auto split: sum.splits)
    moreover from Cons.prems(2) uno
    have "r \<notin> set rs \<or> latlng_recibido (objetos st1 r) \<or> data_procesada (objetos st1 r)"
      by auto
    with t have "objetos st2 r = objetos st1 r"
      by (rule Cons.IH)
    ultimately show ?thesis
      using uno by simp
  qed
qed

lemma obtener_latlng_paradas_exito:
  assumes "obtener_latlng_paradas env rs st = (Inr vs, st')"
  shows "length vs = length rs
       \<and> (\<forall>i<length rs.
             (latlng_recibido (objetos st' (rs ! i)) \<or> data_procesada (objetos st' (rs ! i)))
             \<and> (if latlng_recibido (objetos st' (rs ! i)) then vs ! i = latlng (objetos st' (rs ! i))
                else coordenadas_de (objetos st' (rs ! i)) = Inr (vs ! i)))"
  using assms
proof (induction rs arbitrary: st vs st')
  case Nil
  then show ?case by simp
next
  case (Cons r0 rs)
  from Cons.prems obtain v st1 vs1 where h: "en_objeto (obtener_latlng env) r0 st = (Inr v, st1)"
    and t: "obtener_latlng_paradas env rs st1 = (Inr vs1, st')"
    and vs: "vs = v # vs1"
    by (auto split: prod.splits sum.splits)
  note cabeza = en_objeto_obtener_latlng_exito [OF h]
  from cabeza have "r0 \<notin> set rs \<or> latlng_recibido (objetos st1 r0) \<or> data_procesada (objetos st1 r0)"
    by blast
  with t have igual: "objetos st' r0 = objetos st1 r0"
    by (rule obtener_latlng_paradas_conserva)
  note cola = Cons.IH [OF t]
  show ?case
  proof (intro conjI allI impI)
    show "length vs = length (r0 # rs)"
      using cola vs by simp
  next
    fix i assume i: "i < length (r0 # rs)"
    show "latlng_recibido (objetos st' ((r0 # rs) ! i)) \<or> data_procesada (objetos st' ((r0 # rs) ! i))"
      using i cabeza cola igual by (cases i) auto
  next
    fix i assume i: "i < length (r0 # rs)"
    show "if latlng_recibido (objetos st' ((r0 # rs) ! i))
          then vs ! i = latlng (objetos st' ((r0 # rs) ! i))
          else coordenadas_de (objetos st' ((r0 # rs) ! i)) = Inr (vs ! i)"
    proof (cases i)
      case 0
      with cabeza igual vs show ?thesis by simp
    next
      case (Suc j)
      with i cola vs show ?thesis by simp
    qed
  qed
qed


lemma Ruta_procesar_forma:
  assumes "Ruta_procesar env self st = (res, self', st')"
  shows "(st' = st \<and> self' = self \<and> (\<exists>e. res = Inl e))
       \<or> (\<not> ruta_data_procesada self
          \<and> (\<exists>a b. proc_extremo env InicioNoProcesado (inicio self) st = (Inr a, st)
                \<and> proc_extremo env FinalNoProcesado (final self) st = (Inr b, st)
                \<and> procesar_ruta_con env self a b st = (res, self', st')))"
proof (cases "ruta_data_procesada self")
  case True
  with assms show ?thesis by (auto simp: Ruta_procesar_def)
next
  case no_procesada: False
  show ?thesis
  proof (cases "latlng_recibido (objetos st (inicio self)) \<or> direccion_recibida (objetos st (inicio self))")
    case False
    with assms no_procesada show ?thesis
      by (auto simp: Ruta_procesar_def proc_extremo_casos)
  next
    case inicio_ok: True
    then have "\<exists>a. proc_extremo env InicioNoProcesado (inicio self) st = (Inr a, st)"
      by (cases "latlng_recibido (objetos st (inicio self))") (simp_all add: proc_extremo_casos)
    then obtain a where a: "proc_extremo env InicioNoProcesado (inicio self) st = (Inr a, st)" ..
    show ?thesis
    proof (cases "latlng_recibido (objetos st (final self)) \<or> direccion_recibida (objetos st (final self))")
      case False
      with assms no_procesada a show ?thesis
        by (auto simp: Ruta_procesar_def proc_extremo_casos)
    next
      case True
      then have "\<exists>b. proc_extremo env FinalNoProcesado (final self) st = (Inr b, st)"
        by (cases "latlng_recibido (objetos st (final self))") (simp_all add: proc_extremo_casos)
      then obtain b where b: "proc_extremo env FinalNoProcesado (final self) st = (Inr b, st)" ..
      from assms no_procesada a b have "procesar_ruta_con env self a b st = (res, self', st')"
        by (simp add: Ruta_procesar_def)
      with no_procesada a b show ?thesis by blast
    qed
  qed
qed

lemma procesar_ruta_con_forma:
  assumes "procesar_ruta_con env self a b st = (res, self', st')"
  shows "(\<exists>e st1. obtener_latlng_paradas env (paradas self) st = (Inl e, st1)
            \<and> res = Inl ErrorProcesarREST \<and> self' = self \<and> st' = st1)
       \<or> (\<exists>via st1 reg1. obtener_latlng_paradas env (paradas self) st = (Inr via, st1)
            \<and> objetos st' = objetos st1 \<and> registro st' = reg1
            \<and> (\<exists>r. rest_ruta env (ruta_map_service self) a b via (ruta_kwargs self) (registro st1) = (r, reg1)
                  \<and> (\<forall>d. res = Inr d \<longrightarrow> r = Inr d)))"
proof -
  obtain resv st1 where p: "obtener_latlng_paradas env (paradas self) st = (resv, st1)"
    by (cases "obtener_latlng_paradas env (paradas self) st")
  show ?thesis
  proof (cases resv)
    case (Inl e)
    with assms p show ?thesis by (auto simp: procesar_ruta_con_def)
  next
    case (Inr via)
    obtain r reg1 where q: "rest_ruta env (ruta_map_service self) a b via (ruta_kwargs self) (registro st1) = (r, reg1)"
      by (cases "rest_ruta env (ruta_map_service self) a b via (ruta_kwargs self) (registro st1)")
    from assms p Inr q have "objetos st' = objetos st1 \<and> registro st' = reg1 \<and> (\<forall>d. res = Inr d \<longrightarrow> r = Inr d)"
      by (cases r) (auto simp: procesar_ruta_con_def)
    with p Inr q show ?thesis by simp
  qed
qed


lemma Ruta_procesar_parada_falla:
  assumes "\<not> ruta_data_procesada self"
    and "latlng_recibido (objetos st (inicio self)) \<or> direccion_recibida (objetos st (inicio self))"
    and "latlng_recibido (objetos st (final self)) \<or> direccion_recibida (objetos st (final self))"
    and "obtener_latlng_paradas env (paradas self) st = (Inl e, st1)"
  shows "Ruta_procesar env self st = (Inl ErrorProcesarREST, self, st1)"
  using assms by (auto simp: Ruta_procesar_def proc_extremo_casos procesar_ruta_con_def)

lemma Ruta_procesar_objetos:
  assumes "Ruta_procesar env self st = (res, self', st')"
    and "r \<notin> set (paradas self) \<or> latlng_recibido (objetos st r) \<or> data_procesada (objetos st r)"
  shows "objetos st' r = objetos st r"
proof -
  from Ruta_procesar_forma [OF assms(1)] show ?thesis
  proof (elim disjE conjE exE)
    assume "st' = st"
    then show ?thesis by simp
  next
    fix a b
    assume "procesar_ruta_con env self a b st = (res, self', st')"
    from procesar_ruta_con_forma [OF this] show ?thesis
    proof (elim disjE conjE exE)
      fix e st1
      assume "obtener_latlng_paradas env (paradas self) st = (Inl e, st1)" and "st' = st1"
      then show ?thesis
        using obtener_latlng_paradas_conserva [OF _ assms(2)] by simp
    next
      fix via st1
      assume "obtener_latlng_paradas env (paradas self) st = (Inr via, st1)"
        and "objetos st' = objetos st1"
      then show ?thesis
        using obtener_latlng_paradas_conserva [OF _ assms(2)] by simp
    qed
  qed
qed

lemma Ruta_procesar_exito_paradas:
  assumes "Ruta_procesar env self st = (Inr d, self', st')"
  shows "\<exists>a b via reg1.
           proc_extremo env InicioNoProcesado (inicio self) st = (Inr a, st)
           \<and> proc_extremo env FinalNoProcesado (final self) st = (Inr b, st)
           \<and> length via = length (paradas self)
           \<and> (\<forall>i<length (paradas self).
                 (latlng_recibido (objetos st' (paradas self ! i))
                    \<or> data_procesada (objetos st' (paradas self ! i)))
                 \<and> (if latlng_recibido (objetos st' (paradas self ! i))
                    then via ! i = latlng (objetos st' (paradas self ! i))
                    else coordenadas_de (objetos st' (paradas self ! i)) = Inr (via ! i)))
           \<and> rest_ruta env (ruta_map_service self) a b via (ruta_kwargs self) reg1
               = (Inr d, registro st')"
proof -
  from Ruta_procesar_forma [OF assms] obtain a b
    where a: "proc_extremo env InicioNoProcesado (inicio self) st = (Inr a, st)"
      and b: "proc_extremo env FinalNoProcesado (final self) st = (Inr b, st)"
      and c: "procesar_ruta_con env self a b st = (Inr d, self', st')"
    by (elim disjE conjE exE) simp_all
  from procesar_ruta_con_forma [OF c] obtain via st1 r
    where p: "obtener_latlng_paradas env (paradas self) st = (Inr via, st1)"
      and o: "objetos st' = objetos st1"
      and q: "rest_ruta env (ruta_map_service self) a b via (ruta_kwargs self) (registro st1)
                = (r, registro st')"
      and r: "\<forall>d'. Inr d = Inr d' \<longrightarrow> r = (Inr d' :: error + pyval)"
    by (elim disjE conjE exE) simp_all
  from r have r': "r = Inr d" by simp
  from obtener_latlng_paradas_exito [OF p]
  have len: "length via = length (paradas self)"
    and todas: "\<forall>i<length (paradas self).
                 (latlng_recibido (objetos st1 (paradas self ! i))
                    \<or> data_procesada (objetos st1 (paradas self ! i)))
                 \<and> (if latlng_recibido (objetos st1 (paradas self ! i))
                    then via ! i = latlng (objetos st1 (paradas self ! i))
                    else coordenadas_de (objetos st1 (paradas self ! i)) = Inr (via ! i))"
    by simp_all
  from todas have todas': "\<forall>i<length (paradas self).
                 (latlng_recibido (objetos st' (paradas self ! i))
                    \<or> data_procesada (objetos st' (paradas self ! i)))
                 \<and> (if latlng_recibido (objetos st' (paradas self ! i))
                    then via ! i = latlng (objetos st' (paradas self ! i))
                    else coordenadas_de (objetos st' (paradas self ! i)) = Inr (via ! i))"
    by (simp only: o)
  from q r' have q': "rest_ruta env (ruta_map_service self) a b via (ruta_kwargs self) (registro st1)
                = (Inr d, registro st')"
    by simp
  from a b len todas' q' show ?thesis
    by (intro exI conjI)
qed

subsubsection \<open>Unfolding the code on the examples\<close>

lemmas ejemplo_defs = servicio_bing_def servicio_open_def recurso_localizacion_def recurso_ruta_def
  respuesta_rest_def loc_direccion_def loc_inicio_def loc_final_def estado_ejemplo_def location_ejemplo_def
  recurso_primario_def entorno_primario_def loc_sin_datos_def estado_sin_datos_def proc_de_def
  entorno_ejemplo_def str_float_ejemplo_def quote_ejemplo_def quote_plus_ejemplo_def
  Localizacion_init_def Ruta_init_def

lemmas codigo_defs = Localizacion_procesar_def procesar_con_def rest_localizacion_bing_def
  rest_localizacion_open_res_def consulta_rest_def url_localizacion_bing_def dict_update_def
  url_localizacion_def url_rutas_def url_base_def str_int_def digito_def str_nat_digito
  primer_recurso_def Ruta_procesar_def procesar_ruta_con_def proc_extremo_def en_objeto_def
  obtener_latlng_def obtener_direccion_def procesar_si_falta_def coordenadas_de_def
  direccion_formateada_de_def rest_ruta_def rest_ruta_paradas_def url_ruta_def viajes_de_def
  clave_parada_def tuple_LatLng_to_string_def campo_de_ruta_def

subsection \<open>Resolving once\<close>




subsection \<open>The query to Bing Maps for a location\<close>

text \<open>
  C2. The code puts an address into the path of the URL, after \<open>Locations/\<close>, and a
  coordinate into the parameter \<open>query\<close>: the two branches are the other way round from
  the example calls written in their comments. The answer is unwrapped as
  \<^verbatim>\<open>data['resourceSets'][0]['resources'][0]\<close>. With the geocoder finding nothing for
  'Bogota, Colombia', the request of OpenService is
  \<open>Locations/Bogota%2C%20Colombia?key=K\<close>.
\<close>

theorem url_localizacion_bing_ramas:
  "url_localizacion_bing env svc (PStr s) kw
     = url_localizacion svc @ ''/'' @ quote env s @ ''?'' @ urlencode env (dict_set kw ''key'' (api_key svc))
   \<and> url_localizacion_bing env svc (PList xs) kw
     = url_localizacion svc @ ''?''
         @ urlencode env (dict_set (dict_set kw ''key'' (api_key svc)) ''query'' (PList xs))
   \<and> rest_localizacion
         (entorno_ejemplo [] [Devuelve None] [Devuelve (respuesta_rest recurso_localizacion)])
         servicio_open (PStr ''Bogota, Colombia'') [] []
     = (Inr recurso_localizacion,
        [Geocode ''Bogota, Colombia'',
         JsonFromUrl ''http://dev.virtualearth.net/REST/v1/Locations/Bogota%2C%20Colombia?key=K''])"
  by (simp add: ejemplo_defs codigo_defs)

subsection \<open>A Localizacion built with both a coordinate and an address\<close>

text \<open>
  C3. The constructor called with both a coordinate and an address sets the two flags and
  stores neither value. Both accessors then return at once, with no remote call and the
  object unchanged, and what they return is None, not the coordinate and the address that
  were supplied.
\<close>

theorem localizacion_con_latlng_y_direccion:
  "Localizacion_init svc (PList [PFloat 4.6, PFloat (- 74.1)]) (PStr ''Bogota'') kw
     = Inr \<lparr> data_procesada = False, imagen_procesada = False,
             latlng_recibido = True, direccion_recibida = True,
             lat = PNone, lng = PNone, latlng = PNone, direccion = PNone,
             data = None, kwargs = kw, map_service = svc \<rparr>
   \<and> obtener_latlng env
         (projr (Localizacion_init svc (PList [PFloat 4.6, PFloat (- 74.1)]) (PStr ''Bogota'') kw)) reg
     = (Inr PNone,
        projr (Localizacion_init svc (PList [PFloat 4.6, PFloat (- 74.1)]) (PStr ''Bogota'') kw), reg)
   \<and> obtener_direccion env
         (projr (Localizacion_init svc (PList [PFloat 4.6, PFloat (- 74.1)]) (PStr ''Bogota'') kw)) reg
     = (Inr PNone,
        projr (Localizacion_init svc (PList [PFloat 4.6, PFloat (- 74.1)]) (PStr ''Bogota'') kw), reg)"
  by (simp add: Localizacion_init_def obtener_latlng_def obtener_direccion_def)

subsection \<open>The geocoder first\<close>



subsection \<open>The waypoint keys\<close>

text \<open>
  C5. When the start, the end and the m via positions all encode, the stops of
  \<^verbatim>\<open>_rest_ruta\<close> are their tokens in order and the dictionary \<^verbatim>\<open>viajes\<close> has exactly
  the keys wayPoint.1, viaWayPoint.2 to viaWayPoint.(m+1) and wayPoint.(m+2); wayPoint.1 is
  bound to the token of the start, wayPoint.(m+2) to the token of the end and
  viaWayPoint.k to the token of \<open>via[k-2]\<close>. With no via position the keys are
  wayPoint.1 and wayPoint.2.
\<close>

theorem viajes_de_paradas:
  fixes inicio final :: pyval
  assumes "posicion_a_string_url env inicio = Inr ti"
    and "tokens env via = Inr tv"
    and "posicion_a_string_url env final = Inr tf"
  shows "rest_ruta_paradas env inicio final via = Inr (ti # tv @ [tf])
       \<and> dom (map_of (viajes_de (ti # tv @ [tf])))
           = {''wayPoint.1''} \<union> {''viaWayPoint.'' @ str_nat k | k. 2 \<le> k \<and> k \<le> length via + 1}
               \<union> {''wayPoint.'' @ str_nat (length via + 2)}
       \<and> map_of (viajes_de (ti # tv @ [tf])) ''wayPoint.1'' = Some ti
       \<and> map_of (viajes_de (ti # tv @ [tf])) (''wayPoint.'' @ str_nat (length via + 2)) = Some tf
       \<and> (\<forall>k. 2 \<le> k \<and> k \<le> length via + 1 \<longrightarrow>
             map_of (viajes_de (ti # tv @ [tf])) (''viaWayPoint.'' @ str_nat k) = Some (tv ! (k - 2))
             \<and> posicion_a_string_url env (via ! (k - 2)) = Inr (tv ! (k - 2)))
       \<and> (via = [] \<longrightarrow>
             dom (map_of (viajes_de (ti # tv @ [tf]))) = {''wayPoint.1'', ''wayPoint.2''})"
proof -
  let ?ps = "ti # tv @ [tf]"
  have len: "length tv = length via"
    using assms(2) by (rule tokens_length)
  then have N: "length ?ps = length via + 2"
    by simp
  have paradas: "rest_ruta_paradas env inicio final via = Inr ?ps"
  proof (cases via)
    case Nil
    with assms show ?thesis by (simp add: rest_ruta_paradas_def)
  next
    case (Cons u us)
    with assms show ?thesis by (simp add: rest_ruta_paradas_def)
  qed
  have claves: "dom (map_of (viajes_de ?ps))
           = {''wayPoint.1''} \<union> {''viaWayPoint.'' @ str_nat k | k. 2 \<le> k \<and> k \<le> length via + 1}
               \<union> {''wayPoint.'' @ str_nat (length via + 2)}"
    unfolding viajes_de_dom N by (rule claves_de_paradas)
  have "map_of (viajes_de ?ps) (clave_parada (length ?ps) 1) = Some (?ps ! (1 - 1))"
    by (rule viajes_de_lookup) simp_all
  then have primera: "map_of (viajes_de ?ps) ''wayPoint.1'' = Some ti"
    by (simp add: clave_parada_def str_nat_Suc_0)
  have "map_of (viajes_de ?ps) (clave_parada (length ?ps) (length ?ps)) = Some (?ps ! (length ?ps - 1))"
    by (rule viajes_de_lookup) simp_all
  then have ultima: "map_of (viajes_de ?ps) (''wayPoint.'' @ str_nat (length via + 2)) = Some tf"
    using len by (simp add: clave_parada_def nth_append)
  have intermedias: "map_of (viajes_de ?ps) (''viaWayPoint.'' @ str_nat k) = Some (tv ! (k - 2))
      \<and> posicion_a_string_url env (via ! (k - 2)) = Inr (tv ! (k - 2))"
    if k: "2 \<le> k \<and> k \<le> length via + 1" for k
  proof -
    from k have "map_of (viajes_de ?ps) (clave_parada (length ?ps) k) = Some (?ps ! (k - 1))"
      using N by (intro viajes_de_lookup) simp_all
    moreover from k have "clave_parada (length ?ps) k = ''viaWayPoint.'' @ str_nat k"
      using N by (simp add: clave_parada_def)
    moreover from k len have "?ps ! (k - 1) = tv ! (k - 2)"
      by (cases k) (auto simp: nth_append nth_Cons' Suc_diff_le)
    moreover from k have "k - 2 < length via"
      by arith
    with assms(2) have "posicion_a_string_url env (via ! (k - 2)) = Inr (tv ! (k - 2))"
      by (rule tokens_nth)
    ultimately show ?thesis by simp
  qed
  have vacia: "dom (map_of (viajes_de ?ps)) = {''wayPoint.1'', ''wayPoint.2''}" if "via = []"
  proof -
    have v: "{''viaWayPoint.'' @ str_nat k | k. 2 \<le> k \<and> k \<le> length via + 1} = {}"
      using that by auto
    have u: "str_nat (length via + 2) = ''2''"
      using that by (simp add: str_nat_Suc_Suc_0)
    show ?thesis
      unfolding claves v u by auto
  qed
  show ?thesis
  proof (intro conjI allI impI)
    show "rest_ruta_paradas env inicio final via = Inr ?ps" by (rule paradas)
    show "dom (map_of (viajes_de ?ps))
           = {''wayPoint.1''} \<union> {''viaWayPoint.'' @ str_nat k | k. 2 \<le> k \<and> k \<le> length via + 1}
               \<union> {''wayPoint.'' @ str_nat (length via + 2)}" by (rule claves)
    show "map_of (viajes_de ?ps) ''wayPoint.1'' = Some ti" by (rule primera)
    show "map_of (viajes_de ?ps) (''wayPoint.'' @ str_nat (length via + 2)) = Some tf" by (rule ultima)
    show "map_of (viajes_de ?ps) (''viaWayPoint.'' @ str_nat k) = Some (tv ! (k - 2))"
      if "2 \<le> k \<and> k \<le> length via + 1" for k
      using intermedias [OF that] by (rule conjunct1)
    show "posicion_a_string_url env (via ! (k - 2)) = Inr (tv ! (k - 2))"
      if "2 \<le> k \<and> k \<le> length via + 1" for k
      using intermedias [OF that] by (rule conjunct2)
    show "dom (map_of (viajes_de ?ps)) = {''wayPoint.1'', ''wayPoint.2''}" if "via = []"
      using that by (rule vacia)
  qed
qed

theorem viajes_de_paradas_witness:
  "rest_ruta_paradas (entorno_ejemplo [] [] []) (PList [PFloat 4.6, PFloat (- 74.1)])
       (PStr ''Bogota'') [PList [PFloat 10, PFloat 10], PList [PFloat 4.7, PFloat (- 74)]]
     = Inr [PStr ''4.6,-74.1'', PStr ''10.0,10.0'', PStr ''4.7,-74.0'', PStr ''Bogota'']
   \<and> dom (map_of (viajes_de [PStr ''4.6,-74.1'', PStr ''10.0,10.0'', PStr ''4.7,-74.0'', PStr ''Bogota'']))
     = {''wayPoint.1'', ''viaWayPoint.2'', ''viaWayPoint.3'', ''wayPoint.4''}
   \<and> map_of (viajes_de [PStr ''4.6,-74.1'', PStr ''10.0,10.0'', PStr ''4.7,-74.0'', PStr ''Bogota''])
         ''wayPoint.1'' = Some (PStr ''4.6,-74.1'')
   \<and> map_of (viajes_de [PStr ''4.6,-74.1'', PStr ''10.0,10.0'', PStr ''4.7,-74.0'', PStr ''Bogota''])
         ''viaWayPoint.2'' = Some (PStr ''10.0,10.0'')
   \<and> map_of (viajes_de [PStr ''4.6,-74.1'', PStr ''10.0,10.0'', PStr ''4.7,-74.0'', PStr ''Bogota''])
         ''viaWayPoint.3'' = Some (PStr ''4.7,-74.0'')
   \<and> map_of (viajes_de [PStr ''4.6,-74.1'', PStr ''10.0,10.0'', PStr ''4.7,-74.0'', PStr ''Bogota''])
         ''wayPoint.4'' = Some (PStr ''Bogota'')"
proof -
  let ?env = "entorno_ejemplo [] [] []"
  let ?via = "[PList [PFloat 10, PFloat 10], PList [PFloat 4.7, PFloat (- 74)]]"
  have i: "posicion_a_string_url ?env (PList [PFloat 4.6, PFloat (- 74.1)]) = Inr (PStr ''4.6,-74.1'')"
    by (simp add: ejemplo_defs tuple_LatLng_to_string_def)
  have v: "tokens ?env ?via = Inr [PStr ''10.0,10.0'', PStr ''4.7,-74.0'']"
    by (simp add: ejemplo_defs tuple_LatLng_to_string_def)
  have f: "posicion_a_string_url ?env (PStr ''Bogota'') = Inr (PStr ''Bogota'')"
    by simp
  have claves: "{''viaWayPoint.'' @ str_nat k | k. 2 \<le> k \<and> k \<le> length ?via + 1}
      = {''viaWayPoint.2'', ''viaWayPoint.3''}"
  proof -
    have s: "{k. 2 \<le> k \<and> k \<le> length ?via + 1} = {2, 3}"
      by auto
    show ?thesis
      unfolding setcompr_eq_image s by (simp add: str_nat_digito digito_def)
  qed
  have cuatro: "str_nat (length ?via + 2) = ''4''" and dos: "str_nat 2 = ''2''" and tres: "str_nat 3 = ''3''"
    by (simp_all add: str_nat_digito digito_def)
  from viajes_de_paradas [OF i v f]
  have t: "rest_ruta_paradas ?env (PList [PFloat 4.6, PFloat (- 74.1)]) (PStr ''Bogota'') ?via
        = Inr [PStr ''4.6,-74.1'', PStr ''10.0,10.0'', PStr ''4.7,-74.0'', PStr ''Bogota'']"
    and d: "dom (map_of (viajes_de [PStr ''4.6,-74.1'', PStr ''10.0,10.0'', PStr ''4.7,-74.0'', PStr ''Bogota'']))
        = {''wayPoint.1''} \<union> {''viaWayPoint.'' @ str_nat k | k. 2 \<le> k \<and> k \<le> length ?via + 1}
            \<union> {''wayPoint.'' @ str_nat (length ?via + 2)}"
    and p: "map_of (viajes_de [PStr ''4.6,-74.1'', PStr ''10.0,10.0'', PStr ''4.7,-74.0'', PStr ''Bogota''])
        ''wayPoint.1'' = Some (PStr ''4.6,-74.1'')"
    and u: "map_of (viajes_de [PStr ''4.6,-74.1'', PStr ''10.0,10.0'', PStr ''4.7,-74.0'', PStr ''Bogota''])
        (''wayPoint.'' @ str_nat (length ?via + 2)) = Some (PStr ''Bogota'')"
    and m: "\<forall>k. 2 \<le> k \<and> k \<le> length ?via + 1 \<longrightarrow>
        map_of (viajes_de [PStr ''4.6,-74.1'', PStr ''10.0,10.0'', PStr ''4.7,-74.0'', PStr ''Bogota''])
          (''viaWayPoint.'' @ str_nat k)
          = Some ([PStr ''10.0,10.0'', PStr ''4.7,-74.0''] ! (k - 2))
        \<and> posicion_a_string_url ?env (?via ! (k - 2)) = Inr ([PStr ''10.0,10.0'', PStr ''4.7,-74.0''] ! (k - 2))"
    by simp_all
  from m have m2: "map_of (viajes_de [PStr ''4.6,-74.1'', PStr ''10.0,10.0'', PStr ''4.7,-74.0'', PStr ''Bogota''])
        (''viaWayPoint.'' @ str_nat 2) = Some ([PStr ''10.0,10.0'', PStr ''4.7,-74.0''] ! (2 - 2))"
    by (elim allE [of _ 2]) simp
  from m have m3: "map_of (viajes_de [PStr ''4.6,-74.1'', PStr ''10.0,10.0'', PStr ''4.7,-74.0'', PStr ''Bogota''])
        (''viaWayPoint.'' @ str_nat 3) = Some ([PStr ''10.0,10.0'', PStr ''4.7,-74.0''] ! (3 - 2))"
    by (elim allE [of _ 3]) simp
  from d have d': "dom (map_of (viajes_de [PStr ''4.6,-74.1'', PStr ''10.0,10.0'', PStr ''4.7,-74.0'', PStr ''Bogota'']))
        = {''wayPoint.1'', ''viaWayPoint.2'', ''viaWayPoint.3'', ''wayPoint.4''}"
    unfolding claves cuatro by auto
  from u have u': "map_of (viajes_de [PStr ''4.6,-74.1'', PStr ''10.0,10.0'', PStr ''4.7,-74.0'', PStr ''Bogota''])
        ''wayPoint.4'' = Some (PStr ''Bogota'')"
    unfolding cuatro by simp
  from m2 have m2': "map_of (viajes_de [PStr ''4.6,-74.1'', PStr ''10.0,10.0'', PStr ''4.7,-74.0'', PStr ''Bogota''])
        ''viaWayPoint.2'' = Some (PStr ''10.0,10.0'')"
    unfolding dos by simp
  from m3 have m3': "map_of (viajes_de [PStr ''4.6,-74.1'', PStr ''10.0,10.0'', PStr ''4.7,-74.0'', PStr ''Bogota''])
        ''viaWayPoint.3'' = Some (PStr ''4.7,-74.0'')"
    unfolding tres by simp
  from t d' p m2' m3' u' show ?thesis
    by (intro conjI)
qed

subsection \<open>Coordinate tokens\<close>



subsection \<open>Distances and times of a processed route\<close>



subsection \<open>Endpoints of a route without a coordinate or an address\<close>



subsection \<open>Travel time at constant speed\<close>



subsection \<open>What resolving a route does to its Localizacion objects\<close>

text \<open>
  C10 (as amended). \<^verbatim>\<open>Ruta.procesar\<close> calls \<^verbatim>\<open>obtener_latlng\<close> on every stop, from left
  to right. An object that is not among the stops is unchanged, and so is every object
  whose coordinate was supplied or whose data were already processed: the start and the
  end are changed only when the same object is also a stop. When the call returns, every
  stop has its coordinate supplied or its data processed, and the position handed to
  \<^verbatim>\<open>_rest_ruta\<close> for it is the stored \<^verbatim>\<open>_latlng\<close> in the first case and the tuple of
  \<^verbatim>\<open>data['point']['coordinates']\<close> in the second, never the address. When
  \<^verbatim>\<open>obtener_latlng\<close> raises on a stop, the call raises 'Error, al procesar REST', the
  route is unchanged and the stops resolved before it stay resolved.
\<close>

theorem ruta_procesar_paradas:
  assumes "Ruta_procesar env self st = (res, self', st')"
  shows "(\<forall>r. r \<notin> set (paradas self) \<longrightarrow> objetos st' r = objetos st r)
       \<and> (\<forall>r. latlng_recibido (objetos st r) \<or> data_procesada (objetos st r) \<longrightarrow>
              objetos st' r = objetos st r)
       \<and> (\<forall>d. res = Inr d \<longrightarrow>
             (\<exists>a b via reg1.
                proc_extremo env InicioNoProcesado (inicio self) st = (Inr a, st)
                \<and> proc_extremo env FinalNoProcesado (final self) st = (Inr b, st)
                \<and> length via = length (paradas self)
                \<and> (\<forall>i<length (paradas self).
                      (latlng_recibido (objetos st' (paradas self ! i))
                         \<or> data_procesada (objetos st' (paradas self ! i)))
                      \<and> (if latlng_recibido (objetos st' (paradas self ! i))
                         then via ! i = latlng (objetos st' (paradas self ! i))
                         else coordenadas_de (objetos st' (paradas self ! i)) = Inr (via ! i)))
                \<and> rest_ruta env (ruta_map_service self) a b via (ruta_kwargs self) reg1
                    = (Inr d, registro st')))
       \<and> (\<forall>e st1.
             \<not> ruta_data_procesada self
             \<and> (latlng_recibido (objetos st (inicio self)) \<or> direccion_recibida (objetos st (inicio self)))
             \<and> (latlng_recibido (objetos st (final self)) \<or> direccion_recibida (objetos st (final self)))
             \<and> obtener_latlng_paradas env (paradas self) st = (Inl e, st1)
             \<longrightarrow> res = Inl ErrorProcesarREST \<and> self' = self \<and> st' = st1)"
proof (intro conjI allI impI)
  fix r assume "r \<notin> set (paradas self)"
  then have "r \<notin> set (paradas self) \<or> latlng_recibido (objetos st r) \<or> data_procesada (objetos st r)"
    by simp
  with assms show "objetos st' r = objetos st r"
    by (rule Ruta_procesar_objetos)
next
  fix r assume "latlng_recibido (objetos st r) \<or> data_procesada (objetos st r)"
  then have "r \<notin> set (paradas self) \<or> latlng_recibido (objetos st r) \<or> data_procesada (objetos st r)"
    by simp
  with assms show "objetos st' r = objetos st r"
    by (rule Ruta_procesar_objetos)
next
  fix d assume "res = Inr d"
  with assms have "Ruta_procesar env self st = (Inr d, self', st')"
    by simp
  then show "\<exists>a b via reg1.
                proc_extremo env InicioNoProcesado (inicio self) st = (Inr a, st)
                \<and> proc_extremo env FinalNoProcesado (final self) st = (Inr b, st)
                \<and> length via = length (paradas self)
                \<and> (\<forall>i<length (paradas self).
                      (latlng_recibido (objetos st' (paradas self ! i))
                         \<or> data_procesada (objetos st' (paradas self ! i)))
                      \<and> (if latlng_recibido (objetos st' (paradas self ! i))
                         then via ! i = latlng (objetos st' (paradas self ! i))
                         else coordenadas_de (objetos st' (paradas self ! i)) = Inr (via ! i)))
                \<and> rest_ruta env (ruta_map_service self) a b via (ruta_kwargs self) reg1
                    = (Inr d, registro st')"
    by (rule Ruta_procesar_exito_paradas)
next
  fix e st1
  assume h: "\<not> ruta_data_procesada self
             \<and> (latlng_recibido (objetos st (inicio self)) \<or> direccion_recibida (objetos st (inicio self)))
             \<and> (latlng_recibido (objetos st (final self)) \<or> direccion_recibida (objetos st (final self)))
             \<and> obtener_latlng_paradas env (paradas self) st = (Inl e, st1)"
  then have "Ruta_procesar env self st = (Inl ErrorProcesarREST, self, st1)"
    by (intro Ruta_procesar_parada_falla) simp_all
  with assms show "res = Inl ErrorProcesarREST" and "self' = self" and "st' = st1"
    by simp_all
qed

theorem ruta_procesar_paradas_witness:
  "fst (Ruta_procesar
          (entorno_ejemplo [] []
             [Devuelve (respuesta_rest recurso_localizacion), Devuelve (respuesta_rest recurso_ruta)])
          (Ruta_init servicio_bing 0 1 [2] []) estado_ejemplo) = Inr recurso_ruta
   \<and> objetos (snd (snd (Ruta_procesar
          (entorno_ejemplo [] []
             [Devuelve (respuesta_rest recurso_localizacion), Devuelve (respuesta_rest recurso_ruta)])
          (Ruta_init servicio_bing 0 1 [2] []) estado_ejemplo))) 0 = objetos estado_ejemplo 0
   \<and> objetos (snd (snd (Ruta_procesar
          (entorno_ejemplo [] []
             [Devuelve (respuesta_rest recurso_localizacion), Devuelve (respuesta_rest recurso_ruta)])
          (Ruta_init servicio_bing 0 1 [2] []) estado_ejemplo))) 1 = objetos estado_ejemplo 1
   \<and> objetos (snd (snd (Ruta_procesar
          (entorno_ejemplo [] []
             [Devuelve (respuesta_rest recurso_localizacion), Devuelve (respuesta_rest recurso_ruta)])
          (Ruta_init servicio_bing 0 1 [2] []) estado_ejemplo))) 2
       = (loc_direccion servicio_bing)\<lparr>data := Some recurso_localizacion, data_procesada := True\<rparr>
   \<and> registro (snd (snd (Ruta_procesar
          (entorno_ejemplo [] []
             [Devuelve (respuesta_rest recurso_localizacion), Devuelve (respuesta_rest recurso_ruta)])
          (Ruta_init servicio_bing 0 1 [2] []) estado_ejemplo)))
       = [JsonFromUrl ''http://dev.virtualearth.net/REST/v1/Locations/Bogota?key=K'',
          JsonFromUrl ''http://dev.virtualearth.net/REST/v1/Routes/Driving?wayPoint.1=4.6%2C-74.1&viaWayPoint.2=10.0%2C10.0&wayPoint.3=4.7%2C-74.0&key=K'']
   \<and> fst (Ruta_procesar (entorno_ejemplo [] [] []) (Ruta_init servicio_bing 0 1 [2] []) estado_ejemplo)
       = Inl ErrorProcesarREST
   \<and> fst (snd (Ruta_procesar (entorno_ejemplo [] [] []) (Ruta_init servicio_bing 0 1 [2] []) estado_ejemplo))
       = Ruta_init servicio_bing 0 1 [2] []
   \<and> registro (snd (snd (Ruta_procesar (entorno_ejemplo [] [] []) (Ruta_init servicio_bing 0 1 [2] [])
          estado_ejemplo)))
       = [JsonFromUrl ''http://dev.virtualearth.net/REST/v1/Locations/Bogota?key=K'']"
proof -
  let ?env = "entorno_ejemplo [] []
             [Devuelve (respuesta_rest recurso_localizacion), Devuelve (respuesta_rest recurso_ruta)]"
  let ?r = "Ruta_init servicio_bing 0 1 [2] []"
  let ?x = "Ruta_procesar ?env ?r estado_ejemplo"
  have eq: "Ruta_procesar ?env ?r estado_ejemplo = (fst ?x, fst (snd ?x), snd (snd ?x))"
    by simp
  note t = ruta_procesar_paradas [OF eq]
  have fuera: "0 \<notin> set (paradas ?r)" "1 \<notin> set (paradas ?r)"
    by (simp_all add: Ruta_init_def)
  from t fuera have o0: "objetos (snd (snd ?x)) 0 = objetos estado_ejemplo 0"
    and o1: "objetos (snd (snd ?x)) 1 = objetos estado_ejemplo 1"
    by blast+
  have res: "fst ?x = Inr recurso_ruta"
    by (simp add: ejemplo_defs codigo_defs)
  have o2: "objetos (snd (snd ?x)) 2
       = (loc_direccion servicio_bing)\<lparr>data := Some recurso_localizacion, data_procesada := True\<rparr>"
    by (simp add: ejemplo_defs codigo_defs)
  have reg: "registro (snd (snd ?x))
       = [JsonFromUrl ''http://dev.virtualearth.net/REST/v1/Locations/Bogota?key=K'',
          JsonFromUrl ''http://dev.virtualearth.net/REST/v1/Routes/Driving?wayPoint.1=4.6%2C-74.1&viaWayPoint.2=10.0%2C10.0&wayPoint.3=4.7%2C-74.0&key=K'']"
    by (simp add: ejemplo_defs codigo_defs)
  obtain e st1 where falla: "obtener_latlng_paradas (entorno_ejemplo [] [] []) (paradas ?r) estado_ejemplo
       = (Inl e, st1)"
    by (simp add: ejemplo_defs codigo_defs)
  let ?y = "Ruta_procesar (entorno_ejemplo [] [] []) ?r estado_ejemplo"
  have eqy: "Ruta_procesar (entorno_ejemplo [] [] []) ?r estado_ejemplo = (fst ?y, fst (snd ?y), snd (snd ?y))"
    by simp
  have pre: "\<not> ruta_data_procesada ?r"
    "latlng_recibido (objetos estado_ejemplo (inicio ?r))"
    "latlng_recibido (objetos estado_ejemplo (final ?r))"
    by (simp_all add: ejemplo_defs)
  from ruta_procesar_paradas [OF eqy] pre falla
  have y: "fst ?y = Inl ErrorProcesarREST \<and> fst (snd ?y) = ?r"
    by blast
  have regy: "registro (snd (snd ?y))
       = [JsonFromUrl ''http://dev.virtualearth.net/REST/v1/Locations/Bogota?key=K'']"
    by (simp add: ejemplo_defs codigo_defs)
  from res o0 o1 o2 reg y regy show ?thesis
    by (intro conjI) simp_all
qed

theorem ruta_inicio_entre_paradas_counterexample:
  "inicio (Ruta_init servicio_bing 2 1 [2] []) = 2
   \<and> fst (Ruta_procesar
          (entorno_ejemplo [] []
             [Devuelve (respuesta_rest recurso_localizacion), Devuelve (respuesta_rest recurso_ruta)])
          (Ruta_init servicio_bing 2 1 [2] []) estado_ejemplo) = Inr recurso_ruta
   \<and> \<not> data_procesada (objetos estado_ejemplo 2)
   \<and> data_procesada (objetos (snd (snd (Ruta_procesar
          (entorno_ejemplo [] []
             [Devuelve (respuesta_rest recurso_localizacion), Devuelve (respuesta_rest recurso_ruta)])
          (Ruta_init servicio_bing 2 1 [2] []) estado_ejemplo))) 2)
   \<and> objetos (snd (snd (Ruta_procesar
          (entorno_ejemplo [] []
             [Devuelve (respuesta_rest recurso_localizacion), Devuelve (respuesta_rest recurso_ruta)])
          (Ruta_init servicio_bing 2 1 [2] []) estado_ejemplo))) 2 \<noteq> objetos estado_ejemplo 2"
  by (simp add: ejemplo_defs codigo_defs)

end
